theory Spec2Isabelle
  imports Main
begin

section \<open>Python values\<close>

text \<open>
  A Python \<open>str\<close> is a sequence of Unicode code points, and \<open>len\<close>, slicing and
  \<open>startswith\<close> count code points. The messages of this program contain code points
  beyond Latin-1 (the bullet U+2022, the status glyphs), so a string is modelled as a list
  of code points; \<open>str\<close> turns an ASCII literal into such a list.
\<close>

type_synonym pystr = "nat list"

definition str :: "string \<Rightarrow> pystr" where
  "str s = map of_char s"

definition nl :: pystr where
  "nl = [10]"

text \<open>
  \<open>str.isspace\<close> of one code point: the code points CPython's
  \<open>_PyUnicode_IsWhitespace\<close> accepts.
\<close>

definition isspace :: "nat \<Rightarrow> bool" where
  "isspace c = (c \<in> set ([9, 10, 11, 12, 13, 28, 29, 30, 31, 32, 133, 160, 5760]
                   @ [8192 ..< 8203] @ [8232, 8233, 8239, 8287, 12288]))"

text \<open>\<open>s.strip()\<close>: leading and trailing whitespace removed.\<close>

definition strip :: "pystr \<Rightarrow> pystr" where
  "strip s = rev (dropWhile isspace (rev (dropWhile isspace s)))"

text \<open>
  \<open>s.lower()\<close>. The case mapping is written out for the code points below 256 (ASCII and
  Latin-1), where it is one code point to one code point; a code point from 256 on is left
  as it is, so the model is that of Python for texts of code points below 256.
\<close>

definition lower_cp :: "nat \<Rightarrow> nat" where
  "lower_cp c =
     (if (65 \<le> c \<and> c \<le> 90) \<or> (192 \<le> c \<and> c \<le> 222 \<and> c \<noteq> 215) then c + 32 else c)"

definition lower :: "pystr \<Rightarrow> pystr" where
  "lower s = map lower_cp s"

text \<open>\<open>s.startswith(p)\<close> and \<open>sep.join(xs)\<close>.\<close>

definition startswith :: "pystr \<Rightarrow> pystr \<Rightarrow> bool" where
  "startswith s p = (take (length p) s = p)"

fun join :: "pystr \<Rightarrow> pystr list \<Rightarrow> pystr" where
  "join sep [] = []"
| "join sep [x] = x"
| "join sep (x # y # ys) = x @ sep @ join sep (y # ys)"

text \<open>
  \<open>s.split(maxsplit=1)\<close>: no separator given, so runs of whitespace separate and leading
  whitespace is dropped; after the first word the rest of the string, without its
  leading whitespace, is the second element when it is not empty.
\<close>

definition split_maxsplit1 :: "pystr \<Rightarrow> pystr list" where
  "split_maxsplit1 s =
     (let s1 = dropWhile isspace s in
      if s1 = [] then []
      else
        let word = takeWhile (\<lambda>c. \<not> isspace c) s1;
            rest = dropWhile isspace (dropWhile (\<lambda>c. \<not> isspace c) s1)
        in if rest = [] then [word] else [word, rest])"

text \<open>\<open>sub in s\<close> for strings: \<open>sub\<close> occurs in \<open>s\<close> as a contiguous run.\<close>

fun contains :: "pystr \<Rightarrow> pystr \<Rightarrow> bool" where
  "contains [] sub = (sub = [])"
| "contains (c # cs) sub = (startswith (c # cs) sub \<or> contains cs sub)"

text \<open>
  A \<open>dict\<close> keeps its keys in insertion order, and storing under a key that is already
  there replaces the value in place. It is an association list with distinct keys.
\<close>

type_synonym ('k, 'v) dict = "('k \<times> 'v) list"

fun dict_set :: "('k, 'v) dict \<Rightarrow> 'k \<Rightarrow> 'v \<Rightarrow> ('k, 'v) dict" where
  "dict_set [] k v = [(k, v)]"
| "dict_set ((k', v') # d) k v =
     (if k' = k then (k', v) # d else (k', v') # dict_set d k v)"

definition dict_get :: "('k, 'v) dict \<Rightarrow> 'k \<Rightarrow> 'v option" where
  "dict_get d k = map_of d k"

definition dict_values :: "('k, 'v) dict \<Rightarrow> 'v list" where
  "dict_values d = map snd d"

definition dict_keys :: "('k, 'v) dict \<Rightarrow> 'k list" where
  "dict_keys d = map fst d"

text \<open>The JSON values of request bodies.\<close>

datatype json =
    JNull
  | JBool bool
  | JNum int
  | JStr pystr
  | JArr "json list"
  | JObj "(pystr \<times> json) list"

section \<open>The control-plane client (opencode_client.py)\<close>

record Session =
  sid :: pystr
  title :: "pystr option"
  parent_id :: "pystr option"
  created_at :: pystr
  updated_at :: pystr
  share :: "json option"

record SessionStatus =
  session_id :: pystr
  status :: pystr
  agent :: "pystr option"
  model :: "pystr option"

record Agent =
  agent_name :: "pystr option"
  agent_description :: "pystr option"

text \<open>
  Every call that leaves the process is recorded: the HTTP requests of the client
  (method, path and JSON body) and the calls on the chat transport.
\<close>

datatype outbound =
    Get pystr
  | Post pystr "json option"
  | send_text_message pystr pystr
  | send_markdown_message pystr pystr
  | room_typing pystr bool

text \<open>
  The server and the chat transport are not part of the repository. Their behaviour is an
  input of the model: for each endpoint the list of its future answers, in the order of
  the calls. An answer is the value the client method returns (the decoded response at
  the types the dataclasses declare) or \<open>Inl e\<close>: the call raises an exception whose text
  is \<open>e\<close> (no connection, a status that \<open>raise_for_status\<close> refuses, a body of the wrong
  shape). An endpoint whose list is used up does not answer any more: the call raises.
\<close>

record world =
  calls :: "outbound list"
  get_session_r :: "(pystr + Session) list"
  create_session_r :: "(pystr + Session) list"
  send_message_async_r :: "(pystr + unit) list"
  get_session_status_r :: "(pystr + (pystr, SessionStatus) dict) list"
  list_sessions_r :: "(pystr + Session list) list"
  abort_session_r :: "(pystr + bool) list"
  list_agents_r :: "(pystr + Agent list) list"
  chat_r :: "(pystr + unit) list"

definition no_answer :: pystr where
  "no_answer = str ''All connection attempts failed''"

definition next_reply :: "(pystr + 'a) list \<Rightarrow> (pystr + 'a) \<times> (pystr + 'a) list" where
  "next_reply rs = (case rs of [] \<Rightarrow> (Inl no_answer, []) | r # rest \<Rightarrow> (r, rest))"

text \<open>\<open>OpenCodeClient.create_session\<close>: the request body, then the request.\<close>

definition create_session_body :: "pystr option \<Rightarrow> pystr option \<Rightarrow> (pystr, json) dict" where
  "create_session_body title_arg parent_id_arg =
     (let body = [];
          body = (case title_arg of
                    None \<Rightarrow> body
                  | Some t \<Rightarrow> if t \<noteq> [] then dict_set body (str ''title'') (JStr t) else body);
          body = (case parent_id_arg of
                    None \<Rightarrow> body
                  | Some p \<Rightarrow> if p \<noteq> [] then dict_set body (str ''parentID'') (JStr p) else body)
      in body)"

definition create_session ::
  "pystr option \<Rightarrow> pystr option \<Rightarrow> world \<Rightarrow> (pystr + Session) \<times> world" where
  "create_session title_arg parent_id_arg w =
     (let body = create_session_body title_arg parent_id_arg;
          (r, rest) = next_reply (create_session_r w)
      in (r, w\<lparr>calls := calls w @ [Post (str ''/session'') (Some (JObj body))],
               create_session_r := rest\<rparr>))"

text \<open>\<open>OpenCodeClient.get_session\<close>.\<close>

definition get_session :: "pystr \<Rightarrow> world \<Rightarrow> (pystr + Session) \<times> world" where
  "get_session session_id_arg w =
     (let (r, rest) = next_reply (get_session_r w)
      in (r, w\<lparr>calls := calls w @ [Get (str ''/session/'' @ session_id_arg)],
               get_session_r := rest\<rparr>))"

text \<open>\<open>OpenCodeClient.send_message_async\<close>.\<close>

definition send_message_body :: "pystr \<Rightarrow> pystr option \<Rightarrow> pystr option \<Rightarrow> (pystr, json) dict" where
  "send_message_body content agent_arg model_arg =
     (let body = [(str ''parts'',
                   JArr [JObj [(str ''type'', JStr (str ''text'')), (str ''text'', JStr content)]])];
          body = (case agent_arg of
                    None \<Rightarrow> body
                  | Some a \<Rightarrow> if a \<noteq> [] then dict_set body (str ''agent'') (JStr a) else body);
          body = (case model_arg of
                    None \<Rightarrow> body
                  | Some m \<Rightarrow> if m \<noteq> [] then dict_set body (str ''model'') (JStr m) else body)
      in body)"

definition send_message_async ::
  "pystr \<Rightarrow> pystr \<Rightarrow> pystr option \<Rightarrow> pystr option \<Rightarrow> world \<Rightarrow> (pystr + unit) \<times> world" where
  "send_message_async session_id_arg content agent_arg model_arg w =
     (let body = send_message_body content agent_arg model_arg;
          (r, rest) = next_reply (send_message_async_r w)
      in (r, w\<lparr>calls := calls w @
                 [Post (str ''/session/'' @ session_id_arg @ str ''/prompt_async'')
                       (Some (JObj body))],
               send_message_async_r := rest\<rparr>))"

text \<open>
  \<open>get_session_status\<close>, \<open>list_sessions\<close>, \<open>abort_session\<close> and \<open>list_agents\<close>.
\<close>

definition get_session_status :: "world \<Rightarrow> (pystr + (pystr, SessionStatus) dict) \<times> world" where
  "get_session_status w =
     (let (r, rest) = next_reply (get_session_status_r w)
      in (r, w\<lparr>calls := calls w @ [Get (str ''/session/status'')],
               get_session_status_r := rest\<rparr>))"

definition list_sessions :: "world \<Rightarrow> (pystr + Session list) \<times> world" where
  "list_sessions w =
     (let (r, rest) = next_reply (list_sessions_r w)
      in (r, w\<lparr>calls := calls w @ [Get (str ''/session'')], list_sessions_r := rest\<rparr>))"

definition abort_session :: "pystr \<Rightarrow> world \<Rightarrow> (pystr + bool) \<times> world" where
  "abort_session session_id_arg w =
     (let (r, rest) = next_reply (abort_session_r w)
      in (r, w\<lparr>calls := calls w @
                 [Post (str ''/session/'' @ session_id_arg @ str ''/abort'') None],
               abort_session_r := rest\<rparr>))"

definition list_agents :: "world \<Rightarrow> (pystr + Agent list) \<times> world" where
  "list_agents w =
     (let (r, rest) = next_reply (list_agents_r w)
      in (r, w\<lparr>calls := calls w @ [Get (str ''/agent'')], list_agents_r := rest\<rparr>))"




section \<open>Commands (commands.py)\<close>

record CommandResult =
  success :: bool
  message :: pystr
  data :: "(pystr, pystr) dict option"

datatype Command =
    BuildCommand
  | PlanCommand
  | StatusCommand
  | SessionsCommand
  | AbortCommand
  | ModelCommand
  | HelpCommand
  | AgentsCommand

fun name :: "Command \<Rightarrow> pystr" where
  "name BuildCommand = str ''build''"
| "name PlanCommand = str ''plan''"
| "name StatusCommand = str ''status''"
| "name SessionsCommand = str ''sessions''"
| "name AbortCommand = str ''abort''"
| "name ModelCommand = str ''model''"
| "name HelpCommand = str ''help''"
| "name AgentsCommand = str ''agents''"

fun description :: "Command \<Rightarrow> pystr" where
  "description BuildCommand = str ''Execute a coding task with full access to modify files''"
| "description PlanCommand = str ''Analyze code and plan changes without modifying files''"
| "description StatusCommand = str ''Check the status of current tasks''"
| "description SessionsCommand = str ''List all OpenCode sessions''"
| "description AbortCommand = str ''Stop the current running task''"
| "description ModelCommand = str ''Switch the AI model''"
| "description HelpCommand = str ''Show available commands''"
| "description AgentsCommand = str ''List available OpenCode agents''"

fun usage :: "Command \<Rightarrow> pystr" where
  "usage BuildCommand = str ''/build <task description>''"
| "usage PlanCommand = str ''/plan <analysis request>''"
| "usage StatusCommand = str ''/status''"
| "usage SessionsCommand = str ''/sessions''"
| "usage AbortCommand = str ''/abort [session_id]''"
| "usage ModelCommand = str ''/model <model_name>''"
| "usage HelpCommand = str ''/help [command]''"
| "usage AgentsCommand = str ''/agents''"

fun aliases :: "Command \<Rightarrow> pystr list" where
  "aliases BuildCommand = [str ''b'', str ''do'', str ''code'']"
| "aliases PlanCommand = [str ''p'', str ''analyze'', str ''review'']"
| "aliases StatusCommand = [str ''s'', str ''st'']"
| "aliases SessionsCommand = [str ''ls'', str ''list'']"
| "aliases AbortCommand = [str ''stop'', str ''cancel'']"
| "aliases ModelCommand = [str ''m'']"
| "aliases HelpCommand = [str ''h'', str ''?'']"
| "aliases AgentsCommand = [str ''a'']"

definition ALL_COMMANDS :: "Command list" where
  "ALL_COMMANDS = [BuildCommand, PlanCommand, StatusCommand, SessionsCommand, AbortCommand,
                   ModelCommand, HelpCommand, AgentsCommand]"

section \<open>The bot (bot.py)\<close>

record Config =
  allowed_users :: "pystr list"
  username :: pystr
  prefix :: pystr
  typing_indicator :: bool
  max_message_length :: int
  unknown_command_reply :: bool

record CodeBeepBot =
  config :: Config
  commands :: "(pystr, Command) dict"
  current_model :: "pystr option"
  active_session :: "Session option"

text \<open>
  \<open>CodeBeepBot.__init__\<close>: every command is stored under its name and then under each of
  its aliases; the state starts empty.
\<close>

definition register :: "(pystr, Command) dict \<Rightarrow> Command \<Rightarrow> (pystr, Command) dict" where
  "register d cmd = foldl (\<lambda>d' alias. dict_set d' alias cmd) (dict_set d (name cmd) cmd) (aliases cmd)"

definition init_commands :: "(pystr, Command) dict" where
  "init_commands = foldl register [] ALL_COMMANDS"

definition init_bot :: "Config \<Rightarrow> CodeBeepBot" where
  "init_bot cfg = \<lparr>config = cfg, commands = init_commands, current_model = None,
                   active_session = None\<rparr>"

text \<open>
  \<open>CodeBeepBot.get_or_create_session\<close>. The result is the returned session or the
  exception that leaves the method, with the bot and the world as the call leaves them.
\<close>

definition get_or_create_session ::
  "CodeBeepBot \<Rightarrow> world \<Rightarrow> (pystr + Session) \<times> CodeBeepBot \<times> world" where
  "get_or_create_session self w =
     (let create = (\<lambda>self' w'.
            case create_session (Some (str ''codebeep mobile session'')) None w' of
              (Inr s, w'') \<Rightarrow> (Inr s, self'\<lparr>active_session := Some s\<rparr>, w'')
            | (Inl e, w'') \<Rightarrow> (Inl e, self', w''))
      in case active_session self of
           Some cached \<Rightarrow>
             (case get_session (sid cached) w of
                (Inr session, w') \<Rightarrow> (Inr session, self, w')
              | (Inl e, w') \<Rightarrow> create (self\<lparr>active_session := None\<rparr>) w')
         | None \<Rightarrow> create self w)"

text \<open>\<open>CodeBeepBot.is_user_allowed\<close>.\<close>

definition is_user_allowed :: "CodeBeepBot \<Rightarrow> pystr \<Rightarrow> bool" where
  "is_user_allowed self user_id =
     (let allowed = allowed_users (config self) in
      if allowed = [] then True else user_id \<in> set allowed)"

section \<open>Executing commands\<close>

text \<open>
  Each \<open>execute\<close> returns the result with the bot and the world as it leaves them. An
  \<open>except Exception as e\<close> of the source is the \<open>Inl e\<close> branch; \<open>fail\<close> and \<open>ok\<close> build the
  two kinds of result without \<open>data\<close>.
\<close>

definition fail :: "pystr \<Rightarrow> CommandResult" where
  "fail msg = \<lparr>success = False, message = msg, data = None\<rparr>"

definition ok :: "pystr \<Rightarrow> CommandResult" where
  "ok msg = \<lparr>success = True, message = msg, data = None\<rparr>"

text \<open>The decimal digits of a number, as an f-string prints it.\<close>

function str_of_nat :: "nat \<Rightarrow> pystr" where
  "str_of_nat n = (if n < 10 then [48 + n] else str_of_nat (n div 10) @ [48 + n mod 10])"
  by pat_completeness auto
termination
  by (relation "measure (\<lambda>n. n)") auto

declare str_of_nat.simps [simp del]

definition execute_build :: "CodeBeepBot \<Rightarrow> pystr \<Rightarrow> world \<Rightarrow> CommandResult \<times> CodeBeepBot \<times> world" where
  "execute_build self args w =
     (if strip args = [] then
        (fail (str ''Please provide a task description.'' @ nl @ str ''Usage: /build <task>''),
         self, w)
      else
        case get_or_create_session self w of
          (Inl e, self', w') \<Rightarrow> (fail (str ''Failed to start task: '' @ e), self', w')
        | (Inr session, self', w') \<Rightarrow>
            (case send_message_async (sid session) args (Some (str ''build'')) None w' of
               (Inl e, w'') \<Rightarrow> (fail (str ''Failed to start task: '' @ e), self', w'')
             | (Inr u, w'') \<Rightarrow>
                 (\<lparr>success = True,
                   message = str ''Task started with build agent.'' @ nl @ str ''Session: ''
                     @ take 8 (sid session) @ str ''...'' @ nl @ nl
                     @ str ''I'' @ [39] @ str ''ll notify you when it'' @ [39] @ str ''s complete.'',
                   data = Some [(str ''session_id'', sid session)]\<rparr>,
                  self', w'')))"

definition execute_plan :: "CodeBeepBot \<Rightarrow> pystr \<Rightarrow> world \<Rightarrow> CommandResult \<times> CodeBeepBot \<times> world" where
  "execute_plan self args w =
     (if strip args = [] then
        (fail (str ''Please provide an analysis request.'' @ nl @ str ''Usage: /plan <request>''),
         self, w)
      else
        case get_or_create_session self w of
          (Inl e, self', w') \<Rightarrow> (fail (str ''Failed to start analysis: '' @ e), self', w')
        | (Inr session, self', w') \<Rightarrow>
            (case send_message_async (sid session) args (Some (str ''plan'')) None w' of
               (Inl e, w'') \<Rightarrow> (fail (str ''Failed to start analysis: '' @ e), self', w'')
             | (Inr u, w'') \<Rightarrow>
                 (\<lparr>success = True,
                   message = str ''Analysis started with plan agent.'' @ nl @ str ''Session: ''
                     @ take 8 (sid session) @ str ''...'' @ nl @ nl
                     @ str ''I'' @ [39] @ str ''ll notify you when it'' @ [39] @ str ''s complete.'',
                   data = Some [(str ''session_id'', sid session)]\<rparr>,
                  self', w'')))"

text \<open>The glyph of a status: U+1F4A4, U+1F504, U+23F3, and U+2753 for any other.\<close>

definition emoji :: "pystr \<Rightarrow> pystr" where
  "emoji st =
     (case dict_get [(str ''idle'', [128164]), (str ''running'', [128260]),
                     (str ''waiting'', [9203])] st of
        Some g \<Rightarrow> g
      | None \<Rightarrow> [10067])"

definition status_line :: "pystr \<times> SessionStatus \<Rightarrow> pystr" where
  "status_line item =
     (case item of (session_id_key, st) \<Rightarrow>
        emoji (status st) @ str '' '' @ [96] @ take 8 session_id_key @ str ''...'' @ [96]
        @ str '' - '' @ status st
        @ (case agent st of
             None \<Rightarrow> []
           | Some a \<Rightarrow> if a \<noteq> [] then str '' ('' @ a @ str '')'' else []))"

definition execute_status :: "CodeBeepBot \<Rightarrow> pystr \<Rightarrow> world \<Rightarrow> CommandResult \<times> CodeBeepBot \<times> world" where
  "execute_status self args w =
     (case get_session_status w of
        (Inl e, w') \<Rightarrow> (fail (str ''Failed to get status: '' @ e), self, w')
      | (Inr statuses, w') \<Rightarrow>
          if statuses = [] then (ok (str ''No active sessions.''), self, w')
          else (ok (join nl ((str ''**Session Status:**'' @ nl) # map status_line statuses)),
                self, w'))"

definition session_line :: "Session \<Rightarrow> pystr" where
  "session_line session =
     (let title_shown = (case title session of
                           None \<Rightarrow> str ''Untitled''
                         | Some t \<Rightarrow> if t \<noteq> [] then t else str ''Untitled'')
      in [8226] @ str '' '' @ [96] @ take 8 (sid session) @ str ''...'' @ [96] @ str '' - ''
         @ title_shown)"

definition execute_sessions :: "CodeBeepBot \<Rightarrow> pystr \<Rightarrow> world \<Rightarrow> CommandResult \<times> CodeBeepBot \<times> world" where
  "execute_sessions self args w =
     (case list_sessions w of
        (Inl e, w') \<Rightarrow> (fail (str ''Failed to list sessions: '' @ e), self, w')
      | (Inr sessions, w') \<Rightarrow>
          if sessions = [] then (ok (str ''No sessions found.''), self, w')
          else
            let lines = (str ''**Sessions:**'' @ nl) # map session_line (take 10 sessions);
                lines = (if length sessions > 10
                         then lines @ [nl @ str ''... and '' @ str_of_nat (length sessions - 10)
                                       @ str '' more'']
                         else lines)
            in (ok (join nl lines), self, w'))"

definition execute_abort :: "CodeBeepBot \<Rightarrow> pystr \<Rightarrow> world \<Rightarrow> CommandResult \<times> CodeBeepBot \<times> world" where
  "execute_abort self args w =
     (let abort = (\<lambda>session_id_arg w'.
            case abort_session session_id_arg w' of
              (Inl e, w'') \<Rightarrow> (fail (str ''Failed to abort: '' @ e), self, w'')
            | (Inr b, w'') \<Rightarrow>
                (ok (str ''Aborted session '' @ [96] @ take 8 session_id_arg @ str ''...'' @ [96]),
                 self, w''))
      in if strip args \<noteq> [] then abort (strip args) w
         else
           case get_session_status w of
             (Inl e, w') \<Rightarrow> (fail (str ''Failed to abort: '' @ e), self, w')
           | (Inr statuses, w') \<Rightarrow>
               (case filter (\<lambda>item. status (snd item) = str ''running'') statuses of
                  [] \<Rightarrow> (fail (str ''No running tasks to abort.''), self, w')
                | first # others \<Rightarrow> abort (fst first) w'))"

definition model_listing :: pystr where
  "model_listing =
     str ''**Available models:**'' @ nl
     @ [8226] @ str '' '' @ [96] @ str ''claude-opus-4.5'' @ [96] @ str '' - Most capable'' @ nl
     @ [8226] @ str '' '' @ [96] @ str ''claude-sonnet-4.5'' @ [96] @ str '' - Fast and capable'' @ nl
     @ [8226] @ str '' '' @ [96] @ str ''gemini-3-pro-high'' @ [96] @ str '' - Google''
         @ [39] @ str ''s best'' @ nl
     @ [8226] @ str '' '' @ [96] @ str ''gemini-3-flash'' @ [96] @ str '' - Ultra fast'' @ nl @ nl
     @ str ''Usage: /model <name>''"

definition execute_model :: "CodeBeepBot \<Rightarrow> pystr \<Rightarrow> world \<Rightarrow> CommandResult \<times> CodeBeepBot \<times> world" where
  "execute_model self args w =
     (if strip args = [] then (ok model_listing, self, w)
      else
        let m = strip args
        in (ok (str ''Switched to model: '' @ [96] @ m @ [96]),
            self\<lparr>current_model := Some m\<rparr>, w))"

text \<open>
  \<open>HelpCommand.execute\<close>. With an argument, the name is looked up in the registry and then
  among the aliases of the registry's values; without one, there is one line for every
  value of the registry, in the order of \<open>bot.commands.values()\<close>.
\<close>

definition help_line :: "Command \<Rightarrow> pystr" where
  "help_line cmd = [8226] @ str '' '' @ [96] @ str ''/'' @ name cmd @ [96] @ str '' - ''
                   @ description cmd"

definition help_lines :: "CodeBeepBot \<Rightarrow> pystr list" where
  "help_lines self =
     [str ''**codebeep Commands:**'' @ nl]
     @ map help_line (dict_values (commands self))
     @ [nl @ nl @ str ''Use '' @ [96] @ str ''/help <command>'' @ [96] @ str '' for more details.'']"

definition execute_help :: "CodeBeepBot \<Rightarrow> pystr \<Rightarrow> world \<Rightarrow> CommandResult \<times> CodeBeepBot \<times> world" where
  "execute_help self args w =
     (if strip args \<noteq> [] then
        (let cmd_name = lower (strip args);
             found = (case dict_get (commands self) cmd_name of
                        Some c \<Rightarrow> Some c
                      | None \<Rightarrow>
                          (case filter (\<lambda>c. cmd_name \<in> set (aliases c))
                                  (dict_values (commands self)) of
                             [] \<Rightarrow> None
                           | c # cs \<Rightarrow> Some c))
         in case found of
              None \<Rightarrow> (fail (str ''Unknown command: '' @ cmd_name), self, w)
            | Some cmd \<Rightarrow>
                let aliases_shown =
                      (if aliases cmd \<noteq> []
                       then str '' (aliases: '' @ join (str '', '') (aliases cmd) @ str '')''
                       else [])
                in (ok (str ''**/'' @ name cmd @ str ''**'' @ aliases_shown @ nl @ nl
                        @ description cmd @ nl @ nl @ str ''Usage: '' @ [96] @ usage cmd @ [96]),
                    self, w))
      else (ok (join nl (help_lines self)), self, w))"

definition agent_line :: "Agent \<Rightarrow> pystr" where
  "agent_line a =
     [8226] @ str '' **''
     @ (case agent_name a of None \<Rightarrow> str ''unknown'' | Some n \<Rightarrow> n)
     @ str ''** - ''
     @ (case agent_description a of None \<Rightarrow> str ''No description'' | Some d \<Rightarrow> d)"

definition execute_agents :: "CodeBeepBot \<Rightarrow> pystr \<Rightarrow> world \<Rightarrow> CommandResult \<times> CodeBeepBot \<times> world" where
  "execute_agents self args w =
     (case list_agents w of
        (Inl e, w') \<Rightarrow> (fail (str ''Failed to list agents: '' @ e), self, w')
      | (Inr agents, w') \<Rightarrow>
          if agents = [] then (ok (str ''No agents available.''), self, w')
          else (ok (join nl ((str ''**Available Agents:**'' @ nl) # map agent_line agents)),
                self, w'))"

text \<open>The method call \<open>cmd.execute(bot, args)\<close>, by the class of \<open>cmd\<close>.\<close>

fun execute :: "Command \<Rightarrow> CodeBeepBot \<Rightarrow> pystr \<Rightarrow> world \<Rightarrow> CommandResult \<times> CodeBeepBot \<times> world" where
  "execute BuildCommand = execute_build"
| "execute PlanCommand = execute_plan"
| "execute StatusCommand = execute_status"
| "execute SessionsCommand = execute_sessions"
| "execute AbortCommand = execute_abort"
| "execute ModelCommand = execute_model"
| "execute HelpCommand = execute_help"
| "execute AgentsCommand = execute_agents"

section \<open>Delivering results and handling messages\<close>

text \<open>A call on the chat transport: recorded, then answered by the transport.\<close>

definition chat :: "outbound \<Rightarrow> world \<Rightarrow> (pystr + unit) \<times> world" where
  "chat c w =
     (let (r, rest) = next_reply (chat_r w)
      in (r, w\<lparr>calls := calls w @ [c], chat_r := rest\<rparr>))"

text \<open>\<open>range(start, stop, step)\<close> for a step above zero.\<close>

function py_range :: "nat \<Rightarrow> nat \<Rightarrow> nat \<Rightarrow> nat list" where
  "py_range i stop step =
     (if step = 0 \<or> stop \<le> i then [] else i # py_range (i + step) stop step)"
  by pat_completeness auto
termination
  by (relation "measure (\<lambda>(i, stop, step). stop - i)") auto

declare py_range.simps [simp del]

text \<open>
  The list comprehension of \<open>_send_result\<close>,
  \<open>[message[i : i + max_len] for i in range(0, len(message), max_len)]\<close>: \<open>range\<close> raises
  \<open>ValueError\<close> for the step zero and is empty for a step below zero.
\<close>

definition message_parts :: "int \<Rightarrow> pystr \<Rightarrow> pystr + pystr list" where
  "message_parts max_len msg =
     (if max_len = 0 then Inl (str ''range() arg 3 must not be zero'')
      else if max_len < 0 then Inr []
      else Inr (map (\<lambda>i. take (nat max_len) (drop i msg))
                    (py_range 0 (length msg) (nat max_len))))"

fun send_parts :: "pystr \<Rightarrow> pystr list \<Rightarrow> world \<Rightarrow> (pystr + unit) \<times> world" where
  "send_parts room_id [] w = (Inr (), w)"
| "send_parts room_id (part # parts) w =
     (case chat (send_markdown_message room_id part) w of
        (Inl e, w') \<Rightarrow> (Inl e, w')
      | (Inr u, w') \<Rightarrow> send_parts room_id parts w')"

text \<open>\<open>CodeBeepBot._send_result\<close>.\<close>

definition send_result :: "CodeBeepBot \<Rightarrow> pystr \<Rightarrow> CommandResult \<Rightarrow> world \<Rightarrow> (pystr + unit) \<times> world" where
  "send_result self room_id result w =
     (let msg = message result;
          max_len = max_message_length (config self)
      in if int (length msg) > max_len then
           (case message_parts max_len msg of
              Inl e \<Rightarrow> (Inl e, w)
            | Inr parts \<Rightarrow> send_parts room_id parts w)
         else chat (send_markdown_message room_id msg) w)"

text \<open>
  The event of a message, as \<open>handle_message\<close> reads it: \<open>sender\<close> is \<open>None\<close> when the
  attribute is missing or \<open>None\<close>; \<open>body\<close> is \<open>None\<close> when the event has no such attribute,
  and then \<open>source_body\<close> is what \<open>event.source.get("content", {}).get("body", "")\<close>
  gives; \<open>is_not_from_this_bot\<close> is the answer of the library's \<open>MessageMatch\<close>, or the
  exception it raises.
\<close>

record event =
  sender :: "pystr option"
  body :: "pystr option"
  source_body :: pystr
  is_not_from_this_bot :: "pystr + bool"

text \<open>
  \<open>CodeBeepBot.handle_message\<close>. The result is \<open>Inl e\<close> when an exception leaves the
  method: a call on the transport outside the \<open>try\<close>, in the \<open>except\<close> handler or in the
  \<open>finally\<close> block raised.
\<close>

definition run_command ::
  "CodeBeepBot \<Rightarrow> pystr \<Rightarrow> Command \<Rightarrow> pystr \<Rightarrow> world \<Rightarrow> (pystr + unit) \<times> CodeBeepBot \<times> world" where
  "run_command self room_id cmd args w =
     (let typing = typing_indicator (config self);
          (r_typing, w1) = (if typing then chat (room_typing room_id True) w else (Inr (), w))
      in case r_typing of
           Inl e \<Rightarrow> (Inl e, self, w1)
         | Inr u \<Rightarrow>
             let (result, self', w2) = execute cmd self args w1;
                 (r_try, w3) = send_result self' room_id result w2;
                 (r_except, w4) =
                   (case r_try of
                      Inr u' \<Rightarrow> (Inr (), w3)
                    | Inl e \<Rightarrow>
                        chat (send_text_message room_id (str ''Error executing command: '' @ e)) w3);
                 (r_finally, w5) =
                   (if typing then chat (room_typing room_id False) w4 else (Inr (), w4))
             in (case r_finally of Inl e \<Rightarrow> Inl e | Inr u' \<Rightarrow> r_except, self', w5))"

definition handle_message ::
  "CodeBeepBot \<Rightarrow> pystr \<Rightarrow> event \<Rightarrow> world \<Rightarrow> (pystr + unit) \<times> CodeBeepBot \<times> world" where
  "handle_message self room_id ev w =
     (case sender ev of
        None \<Rightarrow> (Inr (), self, w)
      | Some sender_id \<Rightarrow>
          (if sender_id = [] then (Inr (), self, w)
           else
             (let body_text = (case body ev of Some b \<Rightarrow> b | None \<Rightarrow> source_body ev) in
              if body_text = [] then (Inr (), self, w)
              else if (case is_not_from_this_bot ev of
                         Inr not_from_bot \<Rightarrow> \<not> not_from_bot
                       | Inl e \<Rightarrow> sender_id = username (config self))
              then (Inr (), self, w)
              else if \<not> is_user_allowed self sender_id then (Inr (), self, w)
              else if \<not> startswith body_text (prefix (config self)) then (Inr (), self, w)
              else
                (case split_maxsplit1 (drop (length (prefix (config self))) body_text) of
                   [] \<Rightarrow> (Inr (), self, w)
                 | first # remainder \<Rightarrow>
                     (let cmd_name = lower first;
                          args = (case remainder of [] \<Rightarrow> [] | second # others \<Rightarrow> second)
                      in (case dict_get (commands self) cmd_name of
                            None \<Rightarrow>
                              (if unknown_command_reply (config self) then
                                 (let (r, w') =
                                        chat (send_text_message room_id
                                               (str ''Unknown command: '' @ cmd_name @ nl
                                                @ str ''Use /help to see available commands.'')) w
                                  in (r, self, w'))
                               else (Inr (), self, w))
                          | Some cmd \<Rightarrow> run_command self room_id cmd args w))))))"

section \<open>Notions used in the statements\<close>

text \<open>The calls a run adds to the record, from the world before and the world after.\<close>

definition new_calls :: "world \<Rightarrow> world \<Rightarrow> outbound list" where
  "new_calls w w' = drop (length (calls w)) (calls w')"

text \<open>
  A verification call is the request of \<open>get_session\<close>, a creation call the request of
  \<open>create_session\<close>; a request carries the model parameter when its JSON body has the key
  \<open>model\<close>.
\<close>

fun is_verification :: "outbound \<Rightarrow> bool" where
  "is_verification (Get p) = startswith p (str ''/session/'')"
| "is_verification c = False"

fun is_creation :: "outbound \<Rightarrow> bool" where
  "is_creation (Post p b) = (p = str ''/session'')"
| "is_creation c = False"

fun has_model_param :: "outbound \<Rightarrow> bool" where
  "has_model_param (Post p (Some (JObj kvs))) = (str ''model'' \<in> set (dict_keys kvs))"
| "has_model_param c = False"

text \<open>\<open>get_or_create_session\<close> called twice in succession: both results, then the state.\<close>

definition get_or_create_twice ::
  "CodeBeepBot \<Rightarrow> world \<Rightarrow> (pystr + Session) \<times> (pystr + Session) \<times> CodeBeepBot \<times> world" where
  "get_or_create_twice self w =
     (let (r1, self1, w1) = get_or_create_session self w;
          (r2, self2, w2) = get_or_create_session self1 w1
      in (r1, r2, self2, w2))"

text \<open>The texts of the markdown messages among recorded calls, in order.\<close>

fun markdown_texts :: "outbound list \<Rightarrow> pystr list" where
  "markdown_texts [] = []"
| "markdown_texts (send_markdown_message room_id t # cs) = t # markdown_texts cs"
| "markdown_texts (c # cs) = markdown_texts cs"

text \<open>
  The number of messages the specification gives for a text of length \<open>L\<close> and a limit
  \<open>n\<close>: one when \<open>L \<le> n\<close>, else \<open>L / n\<close> rounded up.
\<close>

definition expected_messages :: "nat \<Rightarrow> nat \<Rightarrow> nat" where
  "expected_messages L n = (if L \<le> n then 1 else (L + n - 1) div n)"



text \<open>Inputs for the examples.\<close>

definition example_config :: "pystr list \<Rightarrow> Config" where
  "example_config allowed =
     \<lparr>allowed_users = allowed, username = str ''@codebeep:example.org'', prefix = str ''/'',
      typing_indicator = True, max_message_length = 4000, unknown_command_reply = True\<rparr>"

definition example_session :: "pystr \<Rightarrow> Session" where
  "example_session i =
     \<lparr>sid = i, title = Some (str ''codebeep mobile session''), parent_id = None,
      created_at = str ''2026-01-01T00:00:00Z'', updated_at = str ''2026-01-01T00:00:00Z'',
      share = None\<rparr>"

definition silent_world :: world where
  "silent_world =
     \<lparr>calls = [], get_session_r = [], create_session_r = [], send_message_async_r = [],
      get_session_status_r = [], list_sessions_r = [], abort_session_r = [],
      list_agents_r = [], chat_r = []\<rparr>"

definition example_bot :: "Session option \<Rightarrow> CodeBeepBot" where
  "example_bot cached = (init_bot (example_config []))\<lparr>active_session := cached\<rparr>"

definition example_event :: "pystr \<Rightarrow> pystr \<Rightarrow> event" where
  "example_event who what =
     \<lparr>sender = Some who, body = Some what, source_body = [], is_not_from_this_bot = Inr True\<rparr>"

section \<open>Basic facts\<close>

lemma str_eq_iff: "(str a = str b) = (a = b)"
  unfolding str_def by (rule inj_map_eq_map) (simp add: inj_on_def)

lemma new_calls_append:
  "calls w' = calls w @ cs \<Longrightarrow> new_calls w w' = cs"
  by (simp add: new_calls_def)

lemma get_session_calls:
  "get_session i w = (r, w') \<Longrightarrow> calls w' = calls w @ [Get (str ''/session/'' @ i)]"
  by (auto simp: get_session_def split: prod.splits)

lemma create_session_calls:
  "create_session t p w = (r, w') \<Longrightarrow>
   calls w' = calls w @ [Post (str ''/session'') (Some (JObj (create_session_body t p)))]"
  by (auto simp: create_session_def split: prod.splits)

lemma mobile_session_body:
  "create_session_body (Some (str ''codebeep mobile session'')) None =
     [(str ''title'', JStr (str ''codebeep mobile session''))]"
  by (simp add: create_session_body_def str_def)

lemma startswith_append: "startswith (p @ s) p"
  by (simp add: startswith_def)

lemma send_message_async_calls:
  "send_message_async i content a m w = (r, w') \<Longrightarrow>
   calls w' = calls w @ [Post (str ''/session/'' @ i @ str ''/prompt_async'')
                            (Some (JObj (send_message_body content a m)))]"
  by (auto simp: send_message_async_def split: prod.splits)

lemma send_message_body_no_model:
  "str ''model'' \<notin> set (dict_keys (send_message_body content a None))"
  by (auto simp: send_message_body_def dict_keys_def str_eq_iff Let_def split: option.splits)

lemma chat_Cons:
  "chat_r w = r # rs \<Longrightarrow> chat c w = (r, w\<lparr>calls := calls w @ [c], chat_r := rs\<rparr>)"
  by (simp add: chat_def next_reply_def)

lemma strip_empty_iff: "(strip s = []) = list_all isspace s"
proof -
  have "(dropWhile isspace (rev (dropWhile isspace s)) = []) = (dropWhile isspace s = [])"
  proof
    assume a: "dropWhile isspace (rev (dropWhile isspace s)) = []"
    show "dropWhile isspace s = []"
    proof (rule ccontr)
      assume n: "dropWhile isspace s \<noteq> []"
      then have "\<not> isspace (hd (dropWhile isspace s))"
        by (rule hd_dropWhile)
      moreover have "hd (dropWhile isspace s) \<in> set (rev (dropWhile isspace s))"
        using n by simp
      ultimately show False
        using a by simp
    qed
  next
    assume "dropWhile isspace s = []"
    then show "dropWhile isspace (rev (dropWhile isspace s)) = []"
      by (simp only: rev.simps dropWhile.simps)
  qed
  then have "(strip s = []) = (dropWhile isspace s = [])"
    by (simp only: strip_def rev_is_Nil_conv)
  then show ?thesis
    by (simp add: list_all_iff)
qed

lemma contains_startswith: "startswith s sub \<Longrightarrow> contains s sub"
  by (cases s) (simp_all add: startswith_def)


lemma contains_appendI1: "contains (sub @ b) sub"
  by (rule contains_startswith) (simp add: startswith_def)

lemma contains_appendI2: "contains s sub \<Longrightarrow> contains (a @ s) sub"
  by (induction a) simp_all

lemma init_commands_eq:
  "init_commands =
     [(str ''build'', BuildCommand), (str ''b'', BuildCommand), (str ''do'', BuildCommand),
      (str ''code'', BuildCommand),
      (str ''plan'', PlanCommand), (str ''p'', PlanCommand), (str ''analyze'', PlanCommand),
      (str ''review'', PlanCommand),
      (str ''status'', StatusCommand), (str ''s'', StatusCommand), (str ''st'', StatusCommand),
      (str ''sessions'', SessionsCommand), (str ''ls'', SessionsCommand),
      (str ''list'', SessionsCommand),
      (str ''abort'', AbortCommand), (str ''stop'', AbortCommand), (str ''cancel'', AbortCommand),
      (str ''model'', ModelCommand), (str ''m'', ModelCommand),
      (str ''help'', HelpCommand), (str ''h'', HelpCommand), (str ''?'', HelpCommand),
      (str ''agents'', AgentsCommand), (str ''a'', AgentsCommand)]"
  by (simp add: init_commands_def ALL_COMMANDS_def register_def str_eq_iff)

section \<open>The session binding\<close>

text \<open>
  Claim C1, as the code has it. Two calls of \<open>get_or_create_session\<close> in succession that
  both succeed, the server answering each \<open>get_session\<close> with the session asked for,
  return sessions of the same id. Every call that finds a cached session issues one
  verification call, so two calls issue one verification call when the cache was empty
  at the start and two when it was not; there is one creation call when the first call
  finds the cache empty or its verification fails, and none otherwise.
\<close>

theorem get_or_create_twice_calls:
  "(active_session self = None
      \<and> create_session (Some (str ''codebeep mobile session'')) None w = (Inr s, w1)
      \<and> get_session (sid s) w1 = (Inr s', w2) \<and> sid s' = sid s
    \<longrightarrow> get_or_create_twice self w = (Inr s, Inr s', self\<lparr>active_session := Some s\<rparr>, w2)
        \<and> new_calls w w2 =
            [Post (str ''/session'')
               (Some (JObj [(str ''title'', JStr (str ''codebeep mobile session''))])),
             Get (str ''/session/'' @ sid s)]
        \<and> length (filter is_verification (new_calls w w2)) = 1
        \<and> length (filter is_creation (new_calls w w2)) = 1)
   \<and> (active_session self = Some cached
      \<and> get_session (sid cached) w = (Inr s1, w1) \<and> sid s1 = sid cached
      \<and> get_session (sid cached) w1 = (Inr s2, w2) \<and> sid s2 = sid cached
    \<longrightarrow> get_or_create_twice self w = (Inr s1, Inr s2, self, w2)
        \<and> sid s1 = sid s2
        \<and> new_calls w w2 =
            [Get (str ''/session/'' @ sid cached), Get (str ''/session/'' @ sid cached)]
        \<and> length (filter is_verification (new_calls w w2)) = 2
        \<and> length (filter is_creation (new_calls w w2)) = 0)
   \<and> (active_session self = Some cached
      \<and> get_session (sid cached) w = (Inl e, w1)
      \<and> create_session (Some (str ''codebeep mobile session'')) None w1 = (Inr s, w2)
      \<and> get_session (sid s) w2 = (Inr s', w3) \<and> sid s' = sid s
    \<longrightarrow> get_or_create_twice self w = (Inr s, Inr s', self\<lparr>active_session := Some s\<rparr>, w3)
        \<and> new_calls w w3 =
            [Get (str ''/session/'' @ sid cached),
             Post (str ''/session'')
               (Some (JObj [(str ''title'', JStr (str ''codebeep mobile session''))])),
             Get (str ''/session/'' @ sid s)]
        \<and> length (filter is_verification (new_calls w w3)) = 2
        \<and> length (filter is_creation (new_calls w w3)) = 1)"
proof (intro conjI impI)
  assume a: "active_session self = None
      \<and> create_session (Some (str ''codebeep mobile session'')) None w = (Inr s, w1)
      \<and> get_session (sid s) w1 = (Inr s', w2) \<and> sid s' = sid s"
  then show "get_or_create_twice self w = (Inr s, Inr s', self\<lparr>active_session := Some s\<rparr>, w2)"
    by (simp add: get_or_create_twice_def get_or_create_session_def)
  have "calls w2 = calls w @
            [Post (str ''/session'')
               (Some (JObj [(str ''title'', JStr (str ''codebeep mobile session''))])),
             Get (str ''/session/'' @ sid s)]"
    using create_session_calls[OF a[THEN conjunct2, THEN conjunct1]]
      get_session_calls[OF a[THEN conjunct2, THEN conjunct2, THEN conjunct1]]
    by (simp add: mobile_session_body)
  then have nc: "new_calls w w2 =
            [Post (str ''/session'')
               (Some (JObj [(str ''title'', JStr (str ''codebeep mobile session''))])),
             Get (str ''/session/'' @ sid s)]"
    by (rule new_calls_append)
  then show "new_calls w w2 =
            [Post (str ''/session'')
               (Some (JObj [(str ''title'', JStr (str ''codebeep mobile session''))])),
             Get (str ''/session/'' @ sid s)]" .
  show "length (filter is_verification (new_calls w w2)) = 1"
    unfolding nc by (simp add: startswith_append)
  show "length (filter is_creation (new_calls w w2)) = 1"
    unfolding nc by simp
next
  assume a: "active_session self = Some cached
      \<and> get_session (sid cached) w = (Inr s1, w1) \<and> sid s1 = sid cached
      \<and> get_session (sid cached) w1 = (Inr s2, w2) \<and> sid s2 = sid cached"
  then show "get_or_create_twice self w = (Inr s1, Inr s2, self, w2)"
    by (simp add: get_or_create_twice_def get_or_create_session_def)
  show "sid s1 = sid s2" using a by simp
  have "calls w2 = calls w @
            [Get (str ''/session/'' @ sid cached), Get (str ''/session/'' @ sid cached)]"
    using get_session_calls[OF a[THEN conjunct2, THEN conjunct1]]
      get_session_calls[OF a[THEN conjunct2, THEN conjunct2, THEN conjunct2, THEN conjunct1]]
    by simp
  then have nc: "new_calls w w2 =
            [Get (str ''/session/'' @ sid cached), Get (str ''/session/'' @ sid cached)]"
    by (rule new_calls_append)
  then show "new_calls w w2 =
            [Get (str ''/session/'' @ sid cached), Get (str ''/session/'' @ sid cached)]" .
  show "length (filter is_verification (new_calls w w2)) = 2"
    unfolding nc by (simp add: startswith_append)
  show "length (filter is_creation (new_calls w w2)) = 0"
    unfolding nc by simp
next
  assume a: "active_session self = Some cached
      \<and> get_session (sid cached) w = (Inl e, w1)
      \<and> create_session (Some (str ''codebeep mobile session'')) None w1 = (Inr s, w2)
      \<and> get_session (sid s) w2 = (Inr s', w3) \<and> sid s' = sid s"
  then show "get_or_create_twice self w = (Inr s, Inr s', self\<lparr>active_session := Some s\<rparr>, w3)"
    by (simp add: get_or_create_twice_def get_or_create_session_def)
  have "calls w3 = calls w @
            [Get (str ''/session/'' @ sid cached),
             Post (str ''/session'')
               (Some (JObj [(str ''title'', JStr (str ''codebeep mobile session''))])),
             Get (str ''/session/'' @ sid s)]"
    using get_session_calls[OF a[THEN conjunct2, THEN conjunct1]]
      create_session_calls[OF a[THEN conjunct2, THEN conjunct2, THEN conjunct1]]
      get_session_calls[OF a[THEN conjunct2, THEN conjunct2, THEN conjunct2, THEN conjunct1]]
    by (simp add: mobile_session_body)
  then have nc: "new_calls w w3 =
            [Get (str ''/session/'' @ sid cached),
             Post (str ''/session'')
               (Some (JObj [(str ''title'', JStr (str ''codebeep mobile session''))])),
             Get (str ''/session/'' @ sid s)]"
    by (rule new_calls_append)
  then show "new_calls w w3 =
            [Get (str ''/session/'' @ sid cached),
             Post (str ''/session'')
               (Some (JObj [(str ''title'', JStr (str ''codebeep mobile session''))])),
             Get (str ''/session/'' @ sid s)]" .
  show "length (filter is_verification (new_calls w w3)) = 2"
    unfolding nc by (simp add: startswith_append)
  show "length (filter is_creation (new_calls w w3)) = 1"
    unfolding nc by simp
qed

theorem get_or_create_twice_calls_witness:
  "get_or_create_twice (example_bot None)
      (silent_world\<lparr>create_session_r := [Inr (example_session (str ''new''))],
                     get_session_r := [Inr (example_session (str ''new''))]\<rparr>)
     = (Inr (example_session (str ''new'')), Inr (example_session (str ''new'')),
        example_bot (Some (example_session (str ''new''))),
        silent_world\<lparr>calls :=
          [Post (str ''/session'')
             (Some (JObj [(str ''title'', JStr (str ''codebeep mobile session''))])),
           Get (str ''/session/new'')]\<rparr>)
   \<and> get_or_create_twice (example_bot (Some (example_session (str ''abc''))))
      (silent_world\<lparr>get_session_r := [Inr (example_session (str ''abc'')),
                                       Inr (example_session (str ''abc''))]\<rparr>)
     = (Inr (example_session (str ''abc'')), Inr (example_session (str ''abc'')),
        example_bot (Some (example_session (str ''abc''))),
        silent_world\<lparr>calls := [Get (str ''/session/abc''), Get (str ''/session/abc'')]\<rparr>)
   \<and> get_or_create_twice (example_bot (Some (example_session (str ''old''))))
      (silent_world\<lparr>get_session_r := [Inl (str ''404 Not Found''),
                                       Inr (example_session (str ''new''))],
                     create_session_r := [Inr (example_session (str ''new''))]\<rparr>)
     = (Inr (example_session (str ''new'')), Inr (example_session (str ''new'')),
        example_bot (Some (example_session (str ''new''))),
        silent_world\<lparr>calls :=
          [Get (str ''/session/old''),
           Post (str ''/session'')
             (Some (JObj [(str ''title'', JStr (str ''codebeep mobile session''))])),
           Get (str ''/session/new'')]\<rparr>)"
proof -
  let ?T = "Some (str ''codebeep mobile session'')"
  let ?new = "example_session (str ''new'')"
  let ?abc = "example_session (str ''abc'')"
  let ?old = "example_session (str ''old'')"
  let ?WA = "silent_world\<lparr>create_session_r := [Inr ?new], get_session_r := [Inr ?new]\<rparr>"
  let ?wa1 = "snd (create_session ?T None ?WA)"
  let ?wa2 = "snd (get_session (sid ?new) ?wa1)"
  have a: "active_session (example_bot None) = None
      \<and> create_session ?T None ?WA = (Inr ?new, ?wa1)
      \<and> get_session (sid ?new) ?wa1 = (Inr ?new, ?wa2) \<and> sid ?new = sid ?new"
    by (simp add: example_bot_def init_bot_def create_session_def get_session_def
          next_reply_def silent_world_def)
  let ?WB = "silent_world\<lparr>get_session_r := [Inr ?abc, Inr ?abc]\<rparr>"
  let ?wb1 = "snd (get_session (sid ?abc) ?WB)"
  let ?wb2 = "snd (get_session (sid ?abc) ?wb1)"
  have b: "active_session (example_bot (Some ?abc)) = Some ?abc
      \<and> get_session (sid ?abc) ?WB = (Inr ?abc, ?wb1) \<and> sid ?abc = sid ?abc
      \<and> get_session (sid ?abc) ?wb1 = (Inr ?abc, ?wb2) \<and> sid ?abc = sid ?abc"
    by (simp add: example_bot_def get_session_def next_reply_def silent_world_def)
  let ?WC = "silent_world\<lparr>get_session_r := [Inl (str ''404 Not Found''), Inr ?new],
                           create_session_r := [Inr ?new]\<rparr>"
  let ?wc1 = "snd (get_session (sid ?old) ?WC)"
  let ?wc2 = "snd (create_session ?T None ?wc1)"
  let ?wc3 = "snd (get_session (sid ?new) ?wc2)"
  have c: "active_session (example_bot (Some ?old)) = Some ?old
      \<and> get_session (sid ?old) ?WC = (Inl (str ''404 Not Found''), ?wc1)
      \<and> create_session ?T None ?wc1 = (Inr ?new, ?wc2)
      \<and> get_session (sid ?new) ?wc2 = (Inr ?new, ?wc3) \<and> sid ?new = sid ?new"
    by (simp add: example_bot_def create_session_def get_session_def next_reply_def
          silent_world_def)
  note t = get_or_create_twice_calls
  from t[THEN conjunct1, THEN mp, OF a]
  have ra: "get_or_create_twice (example_bot None) ?WA =
              (Inr ?new, Inr ?new, (example_bot None)\<lparr>active_session := Some ?new\<rparr>, ?wa2)"
    by (rule conjunct1)
  from t[THEN conjunct2, THEN conjunct1, THEN mp, OF b]
  have rb: "get_or_create_twice (example_bot (Some ?abc)) ?WB =
              (Inr ?abc, Inr ?abc, example_bot (Some ?abc), ?wb2)"
    by (rule conjunct1)
  from t[THEN conjunct2, THEN conjunct2, THEN mp, OF c]
  have rc: "get_or_create_twice (example_bot (Some ?old)) ?WC =
              (Inr ?new, Inr ?new, (example_bot (Some ?old))\<lparr>active_session := Some ?new\<rparr>, ?wc3)"
    by (rule conjunct1)
  show ?thesis
    unfolding ra rb rc
    by (simp add: example_bot_def create_session_def create_session_body_def get_session_def
          next_reply_def silent_world_def example_session_def str_def)
qed

text \<open>
  Claim C1 as stated fails where the cache holds a session that is still on the server:
  both calls return that session, and each of them issues a verification call, two in
  all and not one.
\<close>

theorem get_or_create_twice_counterexample:
  "fst (get_or_create_twice
          (example_bot (Some (example_session (str ''abc''))))
          (silent_world\<lparr>get_session_r := [Inr (example_session (str ''abc'')),
                                           Inr (example_session (str ''abc''))]\<rparr>))
     = Inr (example_session (str ''abc''))
   \<and> fst (snd (get_or_create_twice
          (example_bot (Some (example_session (str ''abc''))))
          (silent_world\<lparr>get_session_r := [Inr (example_session (str ''abc'')),
                                           Inr (example_session (str ''abc''))]\<rparr>)))
     = Inr (example_session (str ''abc''))
   \<and> length (filter is_verification
        (new_calls
          (silent_world\<lparr>get_session_r := [Inr (example_session (str ''abc'')),
                                           Inr (example_session (str ''abc''))]\<rparr>)
          (snd (snd (snd (get_or_create_twice
            (example_bot (Some (example_session (str ''abc''))))
            (silent_world\<lparr>get_session_r := [Inr (example_session (str ''abc'')),
                                             Inr (example_session (str ''abc''))]\<rparr>))))))) = 2
   \<and> length (filter is_verification
        (new_calls
          (silent_world\<lparr>get_session_r := [Inr (example_session (str ''abc'')),
                                           Inr (example_session (str ''abc''))]\<rparr>)
          (snd (snd (snd (get_or_create_twice
            (example_bot (Some (example_session (str ''abc''))))
            (silent_world\<lparr>get_session_r := [Inr (example_session (str ''abc'')),
                                             Inr (example_session (str ''abc''))]\<rparr>))))))) \<noteq> 1"
  by (simp add: get_or_create_twice_def get_or_create_session_def get_session_def
        next_reply_def new_calls_def silent_world_def example_bot_def example_session_def
        startswith_append)

text \<open>
  Claim C6. When the verification call for the cached session fails, the binding is
  cleared and one creation call follows; when the server creates the session, that
  session is returned, the binding holds it, and the caller sees no failure. When the
  creation fails too, its exception leaves the method and the binding stays cleared.
\<close>

theorem get_or_create_after_not_found:
  assumes "active_session self = Some cached"
      and "get_session (sid cached) w = (Inl e, w1)"
  shows "(\<forall>s w2. create_session (Some (str ''codebeep mobile session'')) None w1 = (Inr s, w2) \<longrightarrow>
            get_or_create_session self w = (Inr s, self\<lparr>active_session := Some s\<rparr>, w2)
            \<and> new_calls w w2 =
                [Get (str ''/session/'' @ sid cached),
                 Post (str ''/session'')
                   (Some (JObj [(str ''title'', JStr (str ''codebeep mobile session''))]))]
            \<and> length (filter is_creation (new_calls w w2)) = 1)
       \<and> (\<forall>e' w2. create_session (Some (str ''codebeep mobile session'')) None w1 = (Inl e', w2) \<longrightarrow>
            get_or_create_session self w = (Inl e', self\<lparr>active_session := None\<rparr>, w2))"
proof (intro conjI allI impI)
  fix s w2
  assume c: "create_session (Some (str ''codebeep mobile session'')) None w1 = (Inr s, w2)"
  show "get_or_create_session self w = (Inr s, self\<lparr>active_session := Some s\<rparr>, w2)"
    using assms c by (simp add: get_or_create_session_def)
  have "calls w2 = calls w @
          [Get (str ''/session/'' @ sid cached),
           Post (str ''/session'')
             (Some (JObj [(str ''title'', JStr (str ''codebeep mobile session''))]))]"
    using get_session_calls[OF assms(2)] create_session_calls[OF c]
    by (simp add: mobile_session_body)
  then show nc: "new_calls w w2 =
          [Get (str ''/session/'' @ sid cached),
           Post (str ''/session'')
             (Some (JObj [(str ''title'', JStr (str ''codebeep mobile session''))]))]"
    by (rule new_calls_append)
  show "length (filter is_creation (new_calls w w2)) = 1"
    unfolding nc by simp
next
  fix e' w2
  assume "create_session (Some (str ''codebeep mobile session'')) None w1 = (Inl e', w2)"
  then show "get_or_create_session self w = (Inl e', self\<lparr>active_session := None\<rparr>, w2)"
    using assms by (simp add: get_or_create_session_def)
qed

theorem get_or_create_after_not_found_witness:
  "fst (get_or_create_session
          (example_bot (Some (example_session (str ''old''))))
          (silent_world\<lparr>get_session_r := [Inl (str ''404 Not Found'')],
                         create_session_r := [Inr (example_session (str ''new''))]\<rparr>))
     = Inr (example_session (str ''new''))
   \<and> active_session (fst (snd (get_or_create_session
          (example_bot (Some (example_session (str ''old''))))
          (silent_world\<lparr>get_session_r := [Inl (str ''404 Not Found'')],
                         create_session_r := [Inr (example_session (str ''new''))]\<rparr>))))
     = Some (example_session (str ''new''))"
proof -
  let ?S = "example_bot (Some (example_session (str ''old'')))"
  let ?W = "silent_world\<lparr>get_session_r := [Inl (str ''404 Not Found'')],
                          create_session_r := [Inr (example_session (str ''new''))]\<rparr>"
  let ?w1 = "snd (get_session (sid (example_session (str ''old''))) ?W)"
  let ?w2 = "snd (create_session (Some (str ''codebeep mobile session'')) None ?w1)"
  have 1: "active_session ?S = Some (example_session (str ''old''))"
    by (simp add: example_bot_def)
  have 2: "get_session (sid (example_session (str ''old''))) ?W = (Inl (str ''404 Not Found''), ?w1)"
    by (simp add: get_session_def next_reply_def silent_world_def)
  have 3: "create_session (Some (str ''codebeep mobile session'')) None ?w1 =
             (Inr (example_session (str ''new'')), ?w2)"
    by (simp add: create_session_def get_session_def next_reply_def silent_world_def)
  from get_or_create_after_not_found[OF 1 2] 3
  have "get_or_create_session ?S ?W =
          (Inr (example_session (str ''new'')),
           ?S\<lparr>active_session := Some (example_session (str ''new''))\<rparr>, ?w2)"
    by blast
  then show ?thesis by simp
qed

text \<open>
  Claim C10. \<open>create_session\<close> leaves an optional field out of the request body when its
  argument is falsy: the empty title gives the body of the absent title, without the key
  \<open>title\<close>, and the empty parent id gives the body of the absent parent id, without the
  key \<open>parentID\<close>; so the requests are the same.
\<close>

theorem create_session_omits_falsy:
  "create_session_body None p = create_session_body (Some []) p
   \<and> str ''title'' \<notin> set (dict_keys (create_session_body (Some []) p))
   \<and> create_session_body t None = create_session_body t (Some [])
   \<and> str ''parentID'' \<notin> set (dict_keys (create_session_body t (Some [])))
   \<and> create_session None p w = create_session (Some []) p w
   \<and> create_session t None w = create_session t (Some []) w"
  by (auto simp add: create_session_body_def create_session_def dict_keys_def str_eq_iff
        split: option.splits)

theorem create_session_omits_falsy_witness:
  "create_session None (Some (str ''ses_parent'')) silent_world =
     create_session (Some []) (Some (str ''ses_parent'')) silent_world
   \<and> create_session (Some (str ''a title'')) None silent_world =
     create_session (Some (str ''a title'')) (Some []) silent_world"
  using create_session_omits_falsy
          [where p = "Some (str ''ses_parent'')" and t = "Some (str ''a title'')"
             and w = silent_world]
  by simp

section \<open>The event stream\<close>





section \<open>Result delivery\<close>

lemma py_range_step:
  "0 < n \<Longrightarrow> i < L \<Longrightarrow> py_range i L n = i # py_range (i + n) L n"
  by (subst py_range.simps) simp

lemma py_range_stop:
  "L \<le> i \<Longrightarrow> py_range i L n = []"
  by (subst py_range.simps) simp

lemma concat_parts_drop:
  "0 < n \<Longrightarrow>
   concat (map (\<lambda>j. take n (drop j msg)) (py_range i (length msg) n)) = drop i msg"
proof (induction i "length msg" n rule: py_range.induct)
  case (1 i n)
  show ?case
  proof (cases "i < length msg")
    case True
    have "take n (drop i msg) @ drop (i + n) msg = drop i msg"
      by (metis add.commute append_take_drop_id drop_drop)
    with 1 True show ?thesis
      by (simp add: py_range_step)
  next
    case False
    then show ?thesis by (simp add: py_range_stop)
  qed
qed

lemma ceil_div_step:
  assumes "0 < (n::nat)" and "i < L"
  shows "(L - i + n - 1) div n = Suc ((L - (i + n) + n - 1) div n)"
proof -
  have "L - i + n - 1 = (L - i - 1) + n"
    using assms by simp
  then have "(L - i + n - 1) div n = ((L - i - 1) + n) div n"
    by (simp only:)
  also have "\<dots> = Suc ((L - i - 1) div n)"
    using assms(1) by (simp only: div_add_self2)
  finally have a: "(L - i + n - 1) div n = Suc ((L - i - 1) div n)" .
  have "(L - (i + n) + n - 1) div n = (L - i - 1) div n"
  proof (cases "i + n \<le> L")
    case True
    then have "L - (i + n) + n - 1 = L - i - 1" by simp
    then show ?thesis by simp
  next
    case False
    then have "L - (i + n) + n - 1 < n" "L - i - 1 < n"
      using assms by simp_all
    then show ?thesis by simp
  qed
  with a show ?thesis by simp
qed

lemma length_py_range:
  "0 < n \<Longrightarrow> length (py_range i L n) = (L - i + n - 1) div n"
proof (induction i L n rule: py_range.induct)
  case (1 i L n)
  show ?case
  proof (cases "i < L")
    case True
    with 1 show ?thesis
      by (simp only: py_range_step ceil_div_step list.size) simp
  next
    case False
    then show ?thesis using 1(2) by (simp add: py_range_stop)
  qed
qed

lemma py_range_nth:
  "0 < n \<Longrightarrow> k < length (py_range i L n) \<Longrightarrow> py_range i L n ! k = i + k * n"
proof (induction i L n arbitrary: k rule: py_range.induct)
  case (1 i L n)
  show ?case
  proof (cases "i < L")
    case True
    then have eq: "py_range i L n = i # py_range (i + n) L n"
      using 1(2) by (simp add: py_range_step)
    show ?thesis
    proof (cases k)
      case 0
      then show ?thesis by (simp add: eq)
    next
      case (Suc k')
      then have "k' < length (py_range (i + n) L n)"
        using 1(3) eq by simp
      then have "py_range (i + n) L n ! k' = i + n + k' * n"
        using 1(1) 1(2) True by simp
      then show ?thesis by (simp add: eq Suc)
    qed
  next
    case False
    then show ?thesis using 1(3) by (simp add: py_range_stop)
  qed
qed

lemma py_range_below:
  "0 < n \<Longrightarrow> x \<in> set (py_range i L n) \<Longrightarrow> x < L"
proof (induction i L n rule: py_range.induct)
  case (1 i L n)
  show ?case
  proof (cases "i < L")
    case True
    then have "py_range i L n = i # py_range (i + n) L n"
      using 1(2) by (simp add: py_range_step)
    then show ?thesis using 1 True by auto
  next
    case False
    then show ?thesis using 1(3) by (simp add: py_range_stop)
  qed
qed

lemma full_part_length:
  assumes "0 < n" and "Suc k < length (py_range 0 (length msg) n)"
  shows "length (take n (drop (py_range 0 (length msg) n ! k) msg)) = n"
proof -
  have "py_range 0 (length msg) n ! Suc k \<in> set (py_range 0 (length msg) n)"
    using assms(2) by (rule nth_mem)
  then have "py_range 0 (length msg) n ! Suc k < length msg"
    using assms(1) by (rule py_range_below[rotated])
  then have "Suc k * n < length msg"
    using assms by (simp add: py_range_nth)
  moreover have "py_range 0 (length msg) n ! k = k * n"
    using assms by (simp add: py_range_nth)
  ultimately show ?thesis by simp
qed

lemma markdown_texts_map:
  "markdown_texts (map (send_markdown_message room_id) ps) = ps"
  by (induction ps) simp_all

lemma send_parts_accepted:
  "take (length ps) (chat_r w) = replicate (length ps) (Inr ()) \<Longrightarrow>
   send_parts room_id ps w =
     (Inr (), w\<lparr>calls := calls w @ map (send_markdown_message room_id) ps,
                chat_r := drop (length ps) (chat_r w)\<rparr>)"
proof (induction ps arbitrary: w)
  case Nil
  then show ?case by simp
next
  case (Cons p ps)
  then obtain rest where r: "chat_r w = Inr () # rest"
    by (cases "chat_r w") auto
  let ?w1 = "w\<lparr>calls := calls w @ [send_markdown_message room_id p], chat_r := rest\<rparr>"
  have "take (length ps) (chat_r ?w1) = replicate (length ps) (Inr ())"
    using Cons.prems r by simp
  then have "send_parts room_id ps ?w1 =
     (Inr (), ?w1\<lparr>calls := calls ?w1 @ map (send_markdown_message room_id) ps,
                chat_r := drop (length ps) (chat_r ?w1)\<rparr>)"
    by (rule Cons.IH)
  then show ?case
    by (simp add: chat_Cons[OF r] r)
qed

text \<open>
  Claim C3. For a limit \<open>n\<close> above zero and a transport that accepts the messages,
  \<open>_send_result\<close> sends one message when the text is no longer than \<open>n\<close>, and the text's
  length divided by \<open>n\<close>, rounded up, otherwise; every call is a markdown message to the
  room, every message but the last has length \<open>n\<close>, and the texts sent, put together in
  order, are the original text.
\<close>

theorem send_result_chunks:
  assumes "max_message_length (config self) = int n" and "0 < n"
      and "k = expected_messages (length (message result)) n"
      and "take k (chat_r w) = replicate k (Inr ())"
      and "send_result self room_id result w = (r, w')"
  shows "r = Inr ()
     \<and> new_calls w w' = map (send_markdown_message room_id) (markdown_texts (new_calls w w'))
     \<and> length (new_calls w w') = k
     \<and> concat (markdown_texts (new_calls w w')) = message result
     \<and> (\<forall>i. Suc i < k \<longrightarrow> length (markdown_texts (new_calls w w') ! i) = n)"
proof (cases "length (message result) \<le> n")
  case True
  then have k: "k = 1" using assms(3) by (simp add: expected_messages_def)
  then obtain rest where rest: "chat_r w = Inr () # rest"
    using assms(4) by (cases "chat_r w") auto
  have "send_result self room_id result w =
          chat (send_markdown_message room_id (message result)) w"
    using True assms(1) by (simp add: send_result_def)
  then have "r = Inr ()" "calls w' = calls w @ [send_markdown_message room_id (message result)]"
    using assms(5) chat_Cons[OF rest] by auto
  then show ?thesis
    using k by (simp add: new_calls_append)
next
  case False
  let ?ps = "map (\<lambda>i. take n (drop i (message result))) (py_range 0 (length (message result)) n)"
  have len: "length ?ps = k"
    using False assms(2,3) by (simp add: expected_messages_def length_py_range)
  have "send_result self room_id result w = send_parts room_id ?ps w"
    using False assms(1,2) by (simp add: send_result_def message_parts_def Let_def)
  moreover have "take (length ?ps) (chat_r w) = replicate (length ?ps) (Inr ())"
    using assms(4) len by simp
  ultimately have "r = Inr ()" and c: "calls w' = calls w @ map (send_markdown_message room_id) ?ps"
    using assms(5) send_parts_accepted[of ?ps w room_id] by auto
  have nc: "new_calls w w' = map (send_markdown_message room_id) ?ps"
    using c by (rule new_calls_append)
  have texts: "markdown_texts (new_calls w w') = ?ps"
    unfolding nc by (rule markdown_texts_map)
  have full: "\<forall>i. Suc i < k \<longrightarrow> length (?ps ! i) = n"
  proof (intro allI impI)
    fix i assume "Suc i < k"
    then have "Suc i < length (py_range 0 (length (message result)) n)"
      using len by simp
    then show "length (?ps ! i) = n"
      using full_part_length[OF assms(2), of i "message result"] by simp
  qed
  have "concat ?ps = message result"
    using concat_parts_drop[OF assms(2), of "message result" 0] by simp
  with \<open>r = Inr ()\<close> nc texts len full show ?thesis
    by simp
qed

theorem send_result_chunks_witness:
  "fst (send_result (init_bot ((example_config [])\<lparr>max_message_length := 3\<rparr>)) (str ''!room'')
          (ok (str ''abcdefgh'')) (silent_world\<lparr>chat_r := [Inr (), Inr (), Inr ()]\<rparr>)) = Inr ()
   \<and> length (new_calls (silent_world\<lparr>chat_r := [Inr (), Inr (), Inr ()]\<rparr>)
        (snd (send_result (init_bot ((example_config [])\<lparr>max_message_length := 3\<rparr>)) (str ''!room'')
          (ok (str ''abcdefgh'')) (silent_world\<lparr>chat_r := [Inr (), Inr (), Inr ()]\<rparr>)))) = 3
   \<and> concat (markdown_texts (new_calls (silent_world\<lparr>chat_r := [Inr (), Inr (), Inr ()]\<rparr>)
        (snd (send_result (init_bot ((example_config [])\<lparr>max_message_length := 3\<rparr>)) (str ''!room'')
          (ok (str ''abcdefgh'')) (silent_world\<lparr>chat_r := [Inr (), Inr (), Inr ()]\<rparr>)))))
       = str ''abcdefgh''
   \<and> length (markdown_texts (new_calls (silent_world\<lparr>chat_r := [Inr (), Inr (), Inr ()]\<rparr>)
        (snd (send_result (init_bot ((example_config [])\<lparr>max_message_length := 3\<rparr>)) (str ''!room'')
          (ok (str ''abcdefgh'')) (silent_world\<lparr>chat_r := [Inr (), Inr (), Inr ()]\<rparr>)))) ! 0) = 3"
proof -
  let ?S = "init_bot ((example_config [])\<lparr>max_message_length := 3\<rparr>)"
  let ?W = "silent_world\<lparr>chat_r := [Inr (), Inr (), Inr ()]\<rparr>"
  let ?R = "ok (str ''abcdefgh'')"
  have p1: "max_message_length (config ?S) = int 3"
    by (simp add: init_bot_def)
  have p2: "0 < (3::nat)"
    by simp
  have p3: "3 = expected_messages (length (message ?R)) 3"
    by (simp add: expected_messages_def ok_def str_def)
  have p4: "take 3 (chat_r ?W) = replicate 3 (Inr ())"
    by (simp add: eval_nat_numeral)
  have p5: "send_result ?S (str ''!room'') ?R ?W =
              (fst (send_result ?S (str ''!room'') ?R ?W), snd (send_result ?S (str ''!room'') ?R ?W))"
    by simp
  from send_result_chunks[OF p1 p2 p3 p4 p5]
  show ?thesis
    by (simp add: ok_def)
qed

section \<open>Commands\<close>




lemma get_or_create_session_model_frame:
  "get_or_create_session (self\<lparr>current_model := m\<rparr>) w =
     (case get_or_create_session self w of (r, self', w') \<Rightarrow> (r, self'\<lparr>current_model := m\<rparr>, w'))"
  by (simp add: get_or_create_session_def split: option.splits prod.splits sum.splits)

lemma get_or_create_session_no_model:
  assumes "get_or_create_session self w = (r, self', w')"
  shows "\<exists>cs. calls w' = calls w @ cs \<and> list_all (\<lambda>c. \<not> has_model_param c) cs"
proof -
  have body: "\<not> has_model_param
      (Post (str ''/session'')
         (Some (JObj (create_session_body (Some (str ''codebeep mobile session'')) None))))"
    by (simp add: mobile_session_body dict_keys_def str_eq_iff)
  show ?thesis
  proof (cases "active_session self")
    case None
    obtain rc wc where c: "create_session (Some (str ''codebeep mobile session'')) None w = (rc, wc)"
      by (cases "create_session (Some (str ''codebeep mobile session'')) None w")
    have "w' = wc"
      using assms None c by (cases rc) (simp_all add: get_or_create_session_def)
    then show ?thesis
      using create_session_calls[OF c] body by simp
  next
    case (Some cached)
    obtain rg wg where g: "get_session (sid cached) w = (rg, wg)"
      by (cases "get_session (sid cached) w")
    show ?thesis
    proof (cases rg)
      case (Inr s)
      then have "w' = wg"
        using assms Some g by (simp add: get_or_create_session_def)
      then show ?thesis
        using get_session_calls[OF g] by simp
    next
      case (Inl e)
      obtain rc wc where c: "create_session (Some (str ''codebeep mobile session'')) None wg = (rc, wc)"
        by (cases "create_session (Some (str ''codebeep mobile session'')) None wg")
      have "w' = wc"
        using assms Some g Inl c by (cases rc) (simp_all add: get_or_create_session_def)
      then show ?thesis
        using get_session_calls[OF g] create_session_calls[OF c] body by simp
    qed
  qed
qed


lemma execute_build_model_frame:
  "execute_build (self\<lparr>current_model := m\<rparr>) args w =
     (case execute_build self args w of (r, self', w') \<Rightarrow> (r, self'\<lparr>current_model := m\<rparr>, w'))"
  by (simp add: execute_build_def get_or_create_session_model_frame
        split: prod.splits sum.splits)

lemma execute_plan_model_frame:
  "execute_plan (self\<lparr>current_model := m\<rparr>) args w =
     (case execute_plan self args w of (r, self', w') \<Rightarrow> (r, self'\<lparr>current_model := m\<rparr>, w'))"
  by (simp add: execute_plan_def get_or_create_session_model_frame
        split: prod.splits sum.splits)

lemma execute_build_no_model:
  "list_all (\<lambda>c. \<not> has_model_param c) (new_calls w (snd (snd (execute_build self args w))))"
proof (cases "strip args = []")
  case True
  then show ?thesis by (simp add: execute_build_def new_calls_def)
next
  case False
  obtain r self' w' where g: "get_or_create_session self w = (r, self', w')"
    by (cases "get_or_create_session self w") auto
  from get_or_create_session_no_model[OF g] obtain cs
    where cs: "calls w' = calls w @ cs" "list_all (\<lambda>c. \<not> has_model_param c) cs"
    by blast
  show ?thesis
  proof (cases r)
    case (Inl e)
    then show ?thesis
      using False g cs by (simp add: execute_build_def new_calls_def)
  next
    case (Inr session)
    obtain rs ws where s: "send_message_async (sid session) args (Some (str ''build'')) None w' = (rs, ws)"
      by (cases "send_message_async (sid session) args (Some (str ''build'')) None w'")
    have "snd (snd (execute_build self args w)) = ws"
      using False g Inr s by (cases rs) (simp_all add: execute_build_def)
    then show ?thesis
      using send_message_async_calls[OF s] cs send_message_body_no_model
      by (simp add: new_calls_def)
  qed
qed

lemma execute_plan_no_model:
  "list_all (\<lambda>c. \<not> has_model_param c) (new_calls w (snd (snd (execute_plan self args w))))"
proof (cases "strip args = []")
  case True
  then show ?thesis by (simp add: execute_plan_def new_calls_def)
next
  case False
  obtain r self' w' where g: "get_or_create_session self w = (r, self', w')"
    by (cases "get_or_create_session self w") auto
  from get_or_create_session_no_model[OF g] obtain cs
    where cs: "calls w' = calls w @ cs" "list_all (\<lambda>c. \<not> has_model_param c) cs"
    by blast
  show ?thesis
  proof (cases r)
    case (Inl e)
    then show ?thesis
      using False g cs by (simp add: execute_plan_def new_calls_def)
  next
    case (Inr session)
    obtain rs ws where s: "send_message_async (sid session) args (Some (str ''plan'')) None w' = (rs, ws)"
      by (cases "send_message_async (sid session) args (Some (str ''plan'')) None w'")
    have "snd (snd (execute_plan self args w)) = ws"
      using False g Inr s by (cases rs) (simp_all add: execute_plan_def)
    then show ?thesis
      using send_message_async_calls[OF s] cs send_message_body_no_model
      by (simp add: new_calls_def)
  qed
qed

text \<open>
  Claim C9. \<open>model\<close> makes no call of any kind. Without arguments it succeeds with the
  fixed listing, which names the four known models; with an argument it succeeds and
  changes nothing of the bot but \<open>current_model\<close>. What \<open>build\<close> and \<open>plan\<close> do does not
  depend on \<open>current_model\<close>, and no request they send carries the model parameter.
\<close>

theorem model_command_is_local:
  "snd (snd (execute ModelCommand self args w)) = w
   \<and> (list_all isspace args \<longrightarrow> execute ModelCommand self args w = (ok model_listing, self, w))
   \<and> list_all (contains model_listing)
        [str ''claude-opus-4.5'', str ''claude-sonnet-4.5'', str ''gemini-3-pro-high'',
         str ''gemini-3-flash'']
   \<and> (\<not> list_all isspace args \<longrightarrow>
        fst (snd (execute ModelCommand self args w)) = self\<lparr>current_model := Some (strip args)\<rparr>
        \<and> success (fst (execute ModelCommand self args w)))
   \<and> (cmd = BuildCommand \<or> cmd = PlanCommand \<longrightarrow>
        execute cmd (self\<lparr>current_model := m\<rparr>) args w =
          (case execute cmd self args w of
             (r, self', w') \<Rightarrow> (r, self'\<lparr>current_model := m\<rparr>, w'))
        \<and> list_all (\<lambda>c. \<not> has_model_param c)
             (new_calls w (snd (snd (execute cmd self args w)))))"
proof (intro conjI impI)
  show "snd (snd (execute ModelCommand self args w)) = w"
    by (simp add: execute_model_def Let_def)
  show "execute ModelCommand self args w = (ok model_listing, self, w)" if "list_all isspace args"
    using that by (simp add: execute_model_def strip_empty_iff)
  have 1: "contains model_listing (str ''claude-opus-4.5'')"
    unfolding model_listing_def by (rule contains_appendI1 contains_appendI2)+
  have 2: "contains model_listing (str ''claude-sonnet-4.5'')"
    unfolding model_listing_def by (rule contains_appendI1 contains_appendI2)+
  have 3: "contains model_listing (str ''gemini-3-pro-high'')"
    unfolding model_listing_def by (rule contains_appendI1 contains_appendI2)+
  have 4: "contains model_listing (str ''gemini-3-flash'')"
    unfolding model_listing_def by (rule contains_appendI1 contains_appendI2)+
  show "list_all (contains model_listing)
        [str ''claude-opus-4.5'', str ''claude-sonnet-4.5'', str ''gemini-3-pro-high'',
         str ''gemini-3-flash'']"
    using 1 2 3 4 by simp
  show "fst (snd (execute ModelCommand self args w)) = self\<lparr>current_model := Some (strip args)\<rparr>"
    if "\<not> list_all isspace args"
    using that by (simp add: execute_model_def strip_empty_iff Let_def)
  show "success (fst (execute ModelCommand self args w))" if "\<not> list_all isspace args"
    using that by (simp add: execute_model_def strip_empty_iff Let_def ok_def)
  show "execute cmd (self\<lparr>current_model := m\<rparr>) args w =
          (case execute cmd self args w of
             (r, self', w') \<Rightarrow> (r, self'\<lparr>current_model := m\<rparr>, w'))"
    if "cmd = BuildCommand \<or> cmd = PlanCommand"
    using that execute_build_model_frame execute_plan_model_frame by auto
  show "list_all (\<lambda>c. \<not> has_model_param c) (new_calls w (snd (snd (execute cmd self args w))))"
    if "cmd = BuildCommand \<or> cmd = PlanCommand"
    using that execute_build_no_model execute_plan_no_model by auto
qed

theorem model_command_is_local_witness:
  "snd (snd (execute ModelCommand (example_bot None) (str ''gemini-3-flash'') silent_world))
     = silent_world
   \<and> execute ModelCommand (example_bot None) [] silent_world
     = (ok model_listing, example_bot None, silent_world)
   \<and> fst (snd (execute ModelCommand (example_bot None) (str ''gemini-3-flash'') silent_world))
     = (example_bot None)\<lparr>current_model := Some (strip (str ''gemini-3-flash''))\<rparr>
   \<and> list_all (\<lambda>c. \<not> has_model_param c)
        (new_calls silent_world
          (snd (snd (execute BuildCommand (example_bot None) (str ''gemini-3-flash'') silent_world))))"
proof -
  have a: "list_all isspace []"
    by simp
  have b: "\<not> list_all isspace (str ''gemini-3-flash'')"
    by (simp add: str_def isspace_def)
  have c: "BuildCommand = BuildCommand \<or> BuildCommand = PlanCommand"
    by simp
  note t = model_command_is_local
             [where self = "example_bot None" and w = silent_world and cmd = BuildCommand]
  from t[where args = "[]", THEN conjunct2, THEN conjunct1, THEN mp, OF a]
       t[where args = "str ''gemini-3-flash''", THEN conjunct1]
       t[where args = "str ''gemini-3-flash''", THEN conjunct2, THEN conjunct2, THEN conjunct2,
         THEN conjunct1, THEN mp, OF b]
       t[where args = "str ''gemini-3-flash''", THEN conjunct2, THEN conjunct2, THEN conjunct2,
         THEN conjunct2, THEN mp, OF c]
  show ?thesis by blast
qed

section \<open>The registry and the dispatcher\<close>






text \<open>
  Claim C2 on the code. \<open>help\<close> without arguments writes one line for every entry of the
  registry, and the registry holds every command under its name and again under each of
  its aliases: the listing has 24 command lines for 8 commands, the line of \<open>build\<close> four
  times.
\<close>

theorem help_lists_every_registry_entry:
  "execute HelpCommand (init_bot cfg) [] w = (ok (join nl (help_lines (init_bot cfg))), init_bot cfg, w)
   \<and> help_lines (init_bot cfg) =
       [str ''**codebeep Commands:**'' @ nl]
       @ map help_line
           [BuildCommand, BuildCommand, BuildCommand, BuildCommand,
            PlanCommand, PlanCommand, PlanCommand, PlanCommand,
            StatusCommand, StatusCommand, StatusCommand,
            SessionsCommand, SessionsCommand, SessionsCommand,
            AbortCommand, AbortCommand, AbortCommand,
            ModelCommand, ModelCommand,
            HelpCommand, HelpCommand, HelpCommand,
            AgentsCommand, AgentsCommand]
       @ [nl @ nl @ str ''Use '' @ [96] @ str ''/help <command>'' @ [96] @ str '' for more details.'']
   \<and> count_list (dict_values (commands (init_bot cfg))) BuildCommand = 4
   \<and> length (filter (\<lambda>line. line = help_line BuildCommand) (help_lines (init_bot cfg))) = 4"
proof -
  have v: "dict_values (commands (init_bot cfg)) =
           [BuildCommand, BuildCommand, BuildCommand, BuildCommand,
            PlanCommand, PlanCommand, PlanCommand, PlanCommand,
            StatusCommand, StatusCommand, StatusCommand,
            SessionsCommand, SessionsCommand, SessionsCommand,
            AbortCommand, AbortCommand, AbortCommand,
            ModelCommand, ModelCommand,
            HelpCommand, HelpCommand, HelpCommand,
            AgentsCommand, AgentsCommand]"
    by (simp add: init_bot_def init_commands_eq dict_values_def)
  have e: "execute HelpCommand (init_bot cfg) [] w =
             (ok (join nl (help_lines (init_bot cfg))), init_bot cfg, w)"
    by (simp add: execute_help_def strip_def)
  have l: "length (filter (\<lambda>line. line = help_line BuildCommand) (help_lines (init_bot cfg))) = 4"
    unfolding help_lines_def v by (simp add: help_line_def str_def nl_def)
  show ?thesis
    using e l unfolding help_lines_def v by simp
qed

text \<open>
  Claim C8. A message whose sender is not on a configured, non-empty allow-list leaves the
  bot and the world as they were, so nothing is sent and nothing is called, whatever the
  body is; with an empty allow-list every sender is allowed.
\<close>

theorem unauthorized_sender_is_ignored:
  "(allowed_users (config self) \<noteq> [] \<and> sender ev = Some u
      \<and> u \<notin> set (allowed_users (config self))
    \<longrightarrow> handle_message self room_id ev w = (Inr (), self, w)
        \<and> new_calls w (snd (snd (handle_message self room_id ev w))) = [])
   \<and> (allowed_users (config self) = [] \<longrightarrow> is_user_allowed self u)"
proof (intro conjI impI)
  assume a: "allowed_users (config self) \<noteq> [] \<and> sender ev = Some u
      \<and> u \<notin> set (allowed_users (config self))"
  then have "\<not> is_user_allowed self u"
    by (simp add: is_user_allowed_def)
  then show h: "handle_message self room_id ev w = (Inr (), self, w)"
    using a by (simp add: handle_message_def Let_def)
  show "new_calls w (snd (snd (handle_message self room_id ev w))) = []"
    unfolding h by (simp add: new_calls_def)
next
  assume "allowed_users (config self) = []"
  then show "is_user_allowed self u"
    by (simp add: is_user_allowed_def)
qed

theorem unauthorized_sender_is_ignored_witness:
  "handle_message (init_bot (example_config [str ''@alice:example.org''])) (str ''!room'')
      (example_event (str ''@mallory:example.org'') (str ''/build x''))
      (silent_world\<lparr>chat_r := [Inr (), Inr (), Inr ()]\<rparr>)
     = (Inr (), init_bot (example_config [str ''@alice:example.org'']),
        silent_world\<lparr>chat_r := [Inr (), Inr (), Inr ()]\<rparr>)
   \<and> is_user_allowed (init_bot (example_config [])) (str ''@mallory:example.org'')"
proof -
  have a: "allowed_users (config (init_bot (example_config [str ''@alice:example.org'']))) \<noteq> []
      \<and> sender (example_event (str ''@mallory:example.org'') (str ''/build x''))
          = Some (str ''@mallory:example.org'')
      \<and> str ''@mallory:example.org''
          \<notin> set (allowed_users (config (init_bot (example_config [str ''@alice:example.org'']))))"
    by (simp add: init_bot_def example_config_def example_event_def str_eq_iff)
  have b: "allowed_users (config (init_bot (example_config []))) = []"
    by (simp add: init_bot_def example_config_def)
  note t = unauthorized_sender_is_ignored
  from t[THEN conjunct1, THEN mp, OF a] t[THEN conjunct2, THEN mp, OF b]
  show ?thesis by blast
qed

text \<open>
  For comparison, a sender on the allow-list: \<open>/build fix the login bug\<close> with no session
  cached creates one session, sends the text to it with the agent \<open>build\<close> and no model,
  and answers with the first eight characters of the session id, between the two typing
  notices.
\<close>

lemma build_end_to_end_example:
  "handle_message (init_bot (example_config [str ''@alice:example.org''])) (str ''!room'')
      (example_event (str ''@alice:example.org'') (str ''/build fix the login bug''))
      (silent_world\<lparr>create_session_r := [Inr (example_session (str ''ses_0123456789''))],
                     send_message_async_r := [Inr ()],
                     chat_r := [Inr (), Inr (), Inr ()]\<rparr>)
   = (Inr (),
      (init_bot (example_config [str ''@alice:example.org'']))
        \<lparr>active_session := Some (example_session (str ''ses_0123456789''))\<rparr>,
      silent_world\<lparr>calls :=
        [room_typing (str ''!room'') True,
         Post (str ''/session'')
           (Some (JObj [(str ''title'', JStr (str ''codebeep mobile session''))])),
         Post (str ''/session/ses_0123456789/prompt_async'')
           (Some (JObj [(str ''parts'',
                         JArr [JObj [(str ''type'', JStr (str ''text'')),
                                     (str ''text'', JStr (str ''fix the login bug''))]]),
                        (str ''agent'', JStr (str ''build''))])),
         send_markdown_message (str ''!room'')
           (str ''Task started with build agent.'' @ nl @ str ''Session: ses_0123...'' @ nl @ nl
            @ str ''I'' @ [39] @ str ''ll notify you when it'' @ [39] @ str ''s complete.''),
         room_typing (str ''!room'') False]\<rparr>)"
  by (simp add: handle_message_def run_command_def is_user_allowed_def init_bot_def
        example_config_def example_event_def example_session_def silent_world_def
        startswith_def split_maxsplit1_def isspace_def lower_def lower_cp_def
        init_commands_eq dict_get_def execute_build_def strip_def
        get_or_create_session_def create_session_def create_session_body_def
        send_message_async_def send_message_body_def next_reply_def
        send_result_def chat_def str_def nl_def Let_def)

end
